theory Spec2Isabelle
  imports Complex_Main
begin

section \<open>Data model of \<open>advanced-map.component.ts\<close>\<close>

text \<open>
  A JavaScript \<open>number\<close>. The component never computes with coordinates, it only hands
  them on, so floating point is not modelled: a number is either a value received from
  outside (\<open>Num\<close>) or the unevaluated result of \<open>Number.parseFloat\<close> on a string.
\<close>

datatype number = Num real | ParseFloat string

text \<open>\<open>interface Location\<close>: the coordinates are strings, as the geocoder sends them.\<close>

record Location =
  display_name :: string
  lat :: string
  lon :: string

text \<open>
  \<open>interface Restaurant\<close>. The fields \<open>id\<close>, \<open>lat\<close> and \<open>lon\<close> carry the suffix \<open>_r\<close>:
  \<open>id\<close> is a constant of HOL, and \<open>lat\<close>, \<open>lon\<close> are fields of \<open>Location\<close> already.
  \<open>name\<close> is optional in the source.
\<close>

record Tags =
  name :: "string option"
  amenity :: string

record Restaurant =
  id_r :: nat
  lat_r :: number
  lon_r :: number
  tags :: Tags

text \<open>
  A \<open>mapboxgl.Marker\<close>, as the component configures it: colour, position
  \<open>[lng, lat]\<close> and the HTML of its popup. The hover listeners of a restaurant marker
  only toggle that popup and are not part of the model.
\<close>

record Marker =
  color :: string
  lngLat :: "number \<times> number"
  popupHTML :: string

text \<open>One GeoJSON feature and the clustered source that \<open>setupClustering\<close> builds.\<close>

record Feature =
  coordinates :: "number \<times> number"
  prop_id :: nat
  prop_name :: string

record GeoJSONSource =
  features :: "Feature list"
  cluster :: bool
  clusterMaxZoom :: nat
  clusterRadius :: nat

text \<open>
  The map widget is an external collaborator. The model records what the component
  asks of it: the centre and zoom last commanded, the number of \<open>load\<close> listeners that
  \<open>setupClustering\<close> has registered, the source named \<open>restaurants\<close>, the layers
  added, and whether \<open>remove()\<close> has been called.
\<close>

record MapWidget =
  center :: "number \<times> number"
  zoom :: nat
  loadListeners :: nat
  restaurantsSource :: "GeoJSONSource option"
  layers :: "string list"
  removed :: bool

text \<open>
  An HTTP request in flight. The source gives requests no number; \<open>reqNo\<close> is the
  position of the request in the order of issue (the first request issued has number 0),
  kept so that statements about the order of issue and of completion can be written.
\<close>

datatype Request =
    Geocode (reqNo: nat) string
  | POI (reqNo: nat) number number

fun isGeocode :: "Request \<Rightarrow> bool" where
  "isGeocode (Geocode _ _) = True"
| "isGeocode (POI _ _ _) = False"

text \<open>What an HTTP request completes with: a body, or a transport error.\<close>

datatype 'a response = Ok 'a | TransportError

text \<open>
  A live subscription to \<open>timer(30000, 30000)\<close>: its identity and the time (in ms) at
  which it fires next.
\<close>

record Timer =
  tid :: nat
  due :: nat

text \<open>
  The component. The first ten fields are the fields of the class
  (\<open>map\<close> is \<open>map_w\<close>, since \<open>map\<close> is a constant of HOL; \<open>destroyed\<close> says that
  \<open>destroy$\<close> has emitted and completed; \<open>refreshSubscription\<close> holds the identity of the
  timer subscription, \<open>None\<close> for \<open>null\<close>). \<open>markers\<close> is the array of the class and
  also the markers attached to the map: every marker is pushed right after \<open>addTo\<close>, and
  the array is emptied only after \<open>remove()\<close> on each element.
  The remaining fields are the environment: the requests in flight, how many were issued,
  the live timer subscriptions, the next timer identity and the clock in ms.
\<close>

record State =
  map_w :: "MapWidget option"
  markers :: "Marker list"
  destroyed :: bool
  refreshSubscription :: "nat option"
  searchQuery :: string
  location :: "Location option"
  restaurants :: "Restaurant list"
  loading :: bool
  error :: "string option"
  isOffline :: bool
  pending :: "Request list"
  issued :: nat
  timers :: "Timer list"
  nextTimer :: nat
  now :: nat

section \<open>The methods of the component\<close>

text \<open>
  \<open>!query.trim()\<close>: the query is empty once white space is stripped. Of the characters
  that \<open>trim\<close> strips, those below 256 are tab, line feed, vertical tab, form feed,
  carriage return, space and no-break space.
\<close>

definition isWhiteSpace :: "char \<Rightarrow> bool" where
  "isWhiteSpace c = (of_char c \<in> {9, 10, 11, 12, 13, 32, 160 :: nat})"

definition blank :: "string \<Rightarrow> bool" where
  "blank query = (filter (\<lambda>c. \<not> isWhiteSpace c) query = [])"

text \<open>\<open>fetchRestaurantsForCoordinates\<close> up to the \<open>http.get\<close>: the guard, the flag, the request.\<close>

definition fetchRestaurantsForCoordinates :: "number \<Rightarrow> number \<Rightarrow> State \<Rightarrow> State" where
  "fetchRestaurantsForCoordinates la lo s =
     (if isOffline s then s
      else s\<lparr>loading := True,
             pending := pending s @ [POI (issued s) la lo],
             issued := issued s + 1\<rparr>)"

text \<open>\<open>searchLocation\<close> up to the \<open>http.get\<close>.\<close>

definition searchLocation :: "string \<Rightarrow> State \<Rightarrow> State" where
  "searchLocation query s =
     (if blank query \<or> isOffline s then s
      else s\<lparr>loading := True,
             error := None,
             pending := pending s @ [Geocode (issued s) query],
             issued := issued s + 1\<rparr>)"

definition updateMapCenter :: "number \<Rightarrow> number \<Rightarrow> State \<Rightarrow> State" where
  "updateMapCenter lo la s =
     (case map_w s of
        None \<Rightarrow> s
      | Some m \<Rightarrow> s\<lparr>map_w := Some (m\<lparr>center := (lo, la), zoom := 13\<rparr>)\<rparr>)"

text \<open>\<open>restaurant.tags.name || "Unnamed Restaurant"\<close>: an absent or empty name is falsy.\<close>

definition nameOrUnnamed :: "Restaurant \<Rightarrow> string" where
  "nameOrUnnamed r =
     (case name (tags r) of
        None \<Rightarrow> ''Unnamed Restaurant''
      | Some n \<Rightarrow> if n = [] then ''Unnamed Restaurant'' else n)"

definition centerMarker :: "Location \<Rightarrow> Marker" where
  "centerMarker loc =
     \<lparr>color = ''#FF0000'',
      lngLat = (ParseFloat (lon loc), ParseFloat (lat loc)),
      popupHTML = ''<h3>'' @ display_name loc @ ''</h3>''\<rparr>"

definition restaurantMarker :: "Restaurant \<Rightarrow> Marker" where
  "restaurantMarker r =
     \<lparr>color = ''#4285F4'',
      lngLat = (lon_r r, lat_r r),
      popupHTML = ''<h3>'' @ nameOrUnnamed r @ ''</h3>''\<rparr>"

text \<open>\<open>setupClustering\<close>: it registers a listener for the \<open>load\<close> event of the map.\<close>

definition setupClustering :: "State \<Rightarrow> State" where
  "setupClustering s =
     (case map_w s of
        None \<Rightarrow> s
      | Some m \<Rightarrow> s\<lparr>map_w := Some (m\<lparr>loadListeners := loadListeners m + 1\<rparr>)\<rparr>)"

definition restaurantFeature :: "Restaurant \<Rightarrow> Feature" where
  "restaurantFeature r =
     \<lparr>coordinates = (lon_r r, lat_r r), prop_id = id_r r, prop_name = nameOrUnnamed r\<rparr>"

text \<open>
  The body of the listener that \<open>setupClustering\<close> registers. It reads
  \<open>this.restaurants\<close> when it runs, not when it was registered.
\<close>

definition clusteringOnLoad :: "State \<Rightarrow> State" where
  "clusteringOnLoad s =
     (case map_w s of
        None \<Rightarrow> s
      | Some m \<Rightarrow>
          (case restaurantsSource m of
             Some src \<Rightarrow>
               s\<lparr>map_w := Some (m\<lparr>restaurantsSource :=
                     Some (src\<lparr>features := map restaurantFeature (restaurants s)\<rparr>)\<rparr>)\<rparr>
           | None \<Rightarrow>
               s\<lparr>map_w := Some (m\<lparr>restaurantsSource :=
                     Some \<lparr>features = map restaurantFeature (restaurants s),
                           cluster = True, clusterMaxZoom = 14, clusterRadius = 50\<rparr>,
                     layers := layers m @ [''clusters'', ''cluster-count'']\<rparr>)\<rparr>))"

text \<open>
  \<open>updateMapMarkers\<close>: nothing without a map or a location; otherwise all markers are
  removed, the location marker and one marker per restaurant are added in this order, and
  above 20 restaurants \<open>setupClustering\<close> is called as well.
\<close>

definition updateMapMarkers :: "State \<Rightarrow> State" where
  "updateMapMarkers s =
     (case map_w s of
        None \<Rightarrow> s
      | Some m \<Rightarrow>
          (case location s of
             None \<Rightarrow> s
           | Some loc \<Rightarrow>
               (let s1 = s\<lparr>markers := centerMarker loc # map restaurantMarker (restaurants s)\<rparr>
                in if length (restaurants s) > 20 then setupClustering s1 else s1)))"

text \<open>
  \<open>setupAutoRefresh\<close>: an existing subscription is unsubscribed (a second
  \<open>unsubscribe\<close> on a closed one does nothing), then a new timer is subscribed whose first
  tick is 30000 ms from now.
\<close>

definition unsubscribe :: "nat option \<Rightarrow> Timer list \<Rightarrow> Timer list" where
  "unsubscribe sub ts =
     (case sub of None \<Rightarrow> ts | Some t \<Rightarrow> filter (\<lambda>x. tid x \<noteq> t) ts)"

definition setupAutoRefresh :: "State \<Rightarrow> State" where
  "setupAutoRefresh s =
     s\<lparr>timers := unsubscribe (refreshSubscription s) (timers s)
                   @ [\<lparr>tid = nextTimer s, due = now s + 30000\<rparr>],
       refreshSubscription := Some (nextTimer s),
       nextTimer := nextTimer s + 1\<rparr>"

text \<open>The subscriber of the refresh timer: what one tick does.\<close>

definition refreshTick :: "State \<Rightarrow> State" where
  "refreshTick s =
     (case location s of
        None \<Rightarrow> s
      | Some loc \<Rightarrow>
          if \<not> isOffline s
          then fetchRestaurantsForCoordinates (ParseFloat (lat loc)) (ParseFloat (lon loc)) s
          else s)"

text \<open>
  Completion of a geocode request: first the \<open>catchError\<close> operator, which turns a
  transport error into the empty array after setting \<open>error\<close>, then the subscriber.
\<close>

definition geocodeCatchError :: "Location list response \<Rightarrow> State \<Rightarrow> Location list \<times> State" where
  "geocodeCatchError r s =
     (case r of
        Ok data \<Rightarrow> (data, s)
      | TransportError \<Rightarrow> ([], s\<lparr>error := Some ''Failed to fetch location. Please try again.''\<rparr>))"

definition geocodeSubscriber :: "Location list \<Rightarrow> State \<Rightarrow> State" where
  "geocodeSubscriber data s =
     (let s' =
        (case data of
           [] \<Rightarrow> s\<lparr>error := Some ''No results found for this location'', location := None\<rparr>
         | d # _ \<Rightarrow>
             (let loc = \<lparr>display_name = display_name d, lat = lat d, lon = lon d\<rparr>;
                  s1 = s\<lparr>location := Some loc\<rparr>;
                  s2 = updateMapCenter (ParseFloat (lon loc)) (ParseFloat (lat loc)) s1
              in fetchRestaurantsForCoordinates (ParseFloat (lat loc)) (ParseFloat (lon loc)) s2))
      in s'\<lparr>loading := False\<rparr>)"

definition geocodeCompleted :: "Location list response \<Rightarrow> State \<Rightarrow> State" where
  "geocodeCompleted r s = (case geocodeCatchError r s of (data, s') \<Rightarrow> geocodeSubscriber data s')"

text \<open>
  Completion of a restaurant request. The body is \<open>{ elements?: Restaurant[] }\<close>;
  \<open>data.elements || []\<close> reads an absent field as the empty array.
\<close>

definition poiCatchError ::
  "Restaurant list option response \<Rightarrow> State \<Rightarrow> Restaurant list option \<times> State" where
  "poiCatchError r s =
     (case r of
        Ok data \<Rightarrow> (data, s)
      | TransportError \<Rightarrow>
          (Some [], s\<lparr>error := Some ''Failed to fetch restaurants. Please try again.''\<rparr>))"

definition elementsOrEmpty :: "Restaurant list option \<Rightarrow> Restaurant list" where
  "elementsOrEmpty data = (case data of None \<Rightarrow> [] | Some es \<Rightarrow> es)"

definition poiSubscriber :: "Restaurant list option \<Rightarrow> State \<Rightarrow> State" where
  "poiSubscriber data s =
     setupAutoRefresh ((updateMapMarkers (s\<lparr>restaurants := elementsOrEmpty data\<rparr>))\<lparr>loading := False\<rparr>)"

definition poiCompleted :: "Restaurant list option response \<Rightarrow> State \<Rightarrow> State" where
  "poiCompleted r s = (case poiCatchError r s of (data, s') \<Rightarrow> poiSubscriber data s')"

text \<open>\<open>onSubmit\<close> (\<open>preventDefault\<close> has no effect on the component).\<close>

definition onSubmit :: "State \<Rightarrow> State" where
  "onSubmit s = searchLocation (searchQuery s) s"

text \<open>
  \<open>ngOnDestroy\<close>. \<open>destroy$.next()\<close> ends every subscription piped through
  \<open>takeUntil(destroy$)\<close> while \<open>destroy$\<close> was still open: the connectivity listeners,
  the search pipeline and every timer subscribed before. A timer subscribed after
  \<open>destroy$\<close> has completed is not ended by it (a completed subject emits nothing), so in
  a state already destroyed only the explicit \<open>unsubscribe\<close> acts. The field \<open>map\<close>
  keeps its value; the widget is told to remove itself.
\<close>

definition ngOnDestroy :: "State \<Rightarrow> State" where
  "ngOnDestroy s =
     s\<lparr>destroyed := True,
       timers := (if destroyed s then unsubscribe (refreshSubscription s) (timers s) else []),
       map_w := (case map_w s of None \<Rightarrow> None | Some m \<Rightarrow> Some (m\<lparr>removed := True\<rparr>))\<rparr>"

text \<open>
  \<open>ngOnInit\<close>, from the field initialisers: \<open>initMap\<close>, the two connectivity listeners and
  the search pipeline (live until \<open>destroyed\<close>), and the first search for the initial
  query. The argument is \<open>navigator.onLine\<close>.
\<close>

definition fieldInitialisers :: "bool \<Rightarrow> State" where
  "fieldInitialisers onLine =
     \<lparr>map_w = None, markers = [], destroyed = False, refreshSubscription = None,
      searchQuery = ''Paris'', location = None, restaurants = [], loading = False,
      error = None, isOffline = (\<not> onLine),
      pending = [], issued = 0, timers = [], nextTimer = 0, now = 0\<rparr>"

definition initMap :: "State \<Rightarrow> State" where
  "initMap s =
     s\<lparr>map_w := Some \<lparr>center = (Num 2.3522, Num 48.8566), zoom = 13, loadListeners = 0,
                       restaurantsSource = None, layers = [], removed = False\<rparr>\<rparr>"

definition ngOnInit :: "bool \<Rightarrow> State" where
  "ngOnInit onLine = (let s = initMap (fieldInitialisers onLine) in searchLocation (searchQuery s) s)"

section \<open>Events\<close>

text \<open>
  The handler of the map's \<open>moveend\<close> event, registered in \<open>initMap\<close>:
  \<open>getCenter()\<close> and a fetch for \<open>(center.lat, center.lng)\<close>.
\<close>

definition onMoveEnd :: "State \<Rightarrow> State" where
  "onMoveEnd s =
     (case map_w s of
        None \<Rightarrow> s
      | Some m \<Rightarrow> fetchRestaurantsForCoordinates (snd (center m)) (fst (center m)) s)"

text \<open>
  Everything that can happen to the component on the event loop, one event at a time:
  a form submit; the field's text changing (the template, which is not among the
  sources, is taken to bind the field to \<open>searchQuery\<close>); an emission of the search
  pipeline; the map coming to rest at a centre \<open>(lat, lng)\<close>; the two connectivity events;
  the completion of request number \<open>n\<close>; a tick of timer \<open>t\<close>; the map's \<open>load\<close> event;
  \<open>ngOnDestroy\<close>; and \<open>d\<close> ms passing.
\<close>

datatype Event =
    Submit
  | SetQuery string
  | DebouncedInput
  | MoveEnd number number
  | Online
  | Offline
  | GeocodeDone nat "Location list response"
  | PoiDone nat "Restaurant list option response"
  | Tick nat
  | MapLoad
  | Destroy
  | Advance nat

text \<open>
  One event. An event that cannot happen in the state leaves it as it is: a completion
  for a request that is not in flight, a tick of a timer that is not live or not yet due,
  a \<open>moveend\<close> or \<open>load\<close> of a map that has been removed, an emission of a pipeline or
  a listener that \<open>destroy$\<close> has ended. The HTTP subscriptions are not piped through
  \<open>takeUntil\<close>, so completions are delivered after \<open>ngOnDestroy\<close> as well.
\<close>

fun step :: "State \<Rightarrow> Event \<Rightarrow> State" where
  "step s Submit = onSubmit s"
| "step s (SetQuery q) = s\<lparr>searchQuery := q\<rparr>"
| "step s DebouncedInput = (if destroyed s then s else searchLocation (searchQuery s) s)"
| "step s (MoveEnd la lo) =
     (case map_w s of
        None \<Rightarrow> s
      | Some m \<Rightarrow>
          if removed m then s
          else onMoveEnd (s\<lparr>map_w := Some (m\<lparr>center := (lo, la)\<rparr>)\<rparr>))"
| "step s Online = (if destroyed s then s else s\<lparr>isOffline := False\<rparr>)"
| "step s Offline = (if destroyed s then s else s\<lparr>isOffline := True\<rparr>)"
| "step s (GeocodeDone n r) =
     (case find (\<lambda>q. isGeocode q \<and> reqNo q = n) (pending s) of
        None \<Rightarrow> s
      | Some q \<Rightarrow> geocodeCompleted r (s\<lparr>pending := remove1 q (pending s)\<rparr>))"
| "step s (PoiDone n r) =
     (case find (\<lambda>q. \<not> isGeocode q \<and> reqNo q = n) (pending s) of
        None \<Rightarrow> s
      | Some q \<Rightarrow> poiCompleted r (s\<lparr>pending := remove1 q (pending s)\<rparr>))"
| "step s (Tick t) =
     (case find (\<lambda>x. tid x = t \<and> due x \<le> now s) (timers s) of
        None \<Rightarrow> s
      | Some x \<Rightarrow>
          refreshTick
            (s\<lparr>timers := map (\<lambda>y. if tid y = t then y\<lparr>due := due y + 30000\<rparr> else y) (timers s)\<rparr>))"
| "step s MapLoad =
     (case map_w s of
        None \<Rightarrow> s
      | Some m \<Rightarrow> if removed m then s else (clusteringOnLoad ^^ loadListeners m) s)"
| "step s Destroy = ngOnDestroy s"
| "step s (Advance d) = s\<lparr>now := now s + d\<rparr>"

fun run :: "State \<Rightarrow> Event list \<Rightarrow> State" where
  "run s [] = s"
| "run s (e # es) = run (step s e) es"

section \<open>The search pipeline of \<open>setupSearch\<close>\<close>

text \<open>
  \<open>fromEvent(input, "input")\<close> emits the DOM event objects themselves. An event object
  is created anew for every dispatch: \<open>ident\<close> is its identity, \<open>targetValue\<close> the text
  of the field when it was dispatched.
\<close>

record InputEvent =
  ident :: nat
  targetValue :: string

text \<open>
  \<open>debounceTime(d)\<close> on a stream given as (time in ms, value) pairs in order of time:
  a value is emitted \<open>d\<close> ms after it arrived unless another value arrived before that.
\<close>

fun debounceTime :: "nat \<Rightarrow> (nat \<times> 'a) list \<Rightarrow> (nat \<times> 'a) list" where
  "debounceTime d [] = []"
| "debounceTime d [(t, v)] = [(t + d, v)]"
| "debounceTime d ((t, v) # (t', v') # rest) =
     (if t' < t + d then debounceTime d ((t', v') # rest)
      else (t + d, v) # debounceTime d ((t', v') # rest))"

text \<open>
  \<open>distinctUntilChanged()\<close> with no comparator: a value passes unless it is \<open>===\<close> to the
  value that passed last. On objects \<open>===\<close> is identity, which on \<open>InputEvent\<close> is
  equality, the identities of two dispatches being different.
\<close>

fun distinctFrom :: "'a option \<Rightarrow> (nat \<times> 'a) list \<Rightarrow> (nat \<times> 'a) list" where
  "distinctFrom prev [] = []"
| "distinctFrom prev ((t, v) # rest) =
     (if prev = Some v then distinctFrom prev rest else (t, v) # distinctFrom (Some v) rest)"

definition distinctUntilChanged :: "(nat \<times> 'a) list \<Rightarrow> (nat \<times> 'a) list" where
  "distinctUntilChanged xs = distinctFrom None xs"

text \<open>
  The pipeline of \<open>setupSearch\<close>, for a component that is not destroyed meanwhile, and
  the queries it commits: the subscriber ignores the event it receives and calls
  \<open>searchLocation(this.searchQuery)\<close>. The template is not among the sources;
  \<open>searchQuery\<close> is taken to follow the text of the field, so that after 300 ms without
  input it is the text of the field at the event emitted.
\<close>

definition searchPipeline :: "(nat \<times> InputEvent) list \<Rightarrow> (nat \<times> InputEvent) list" where
  "searchPipeline raw = distinctUntilChanged (debounceTime 300 raw)"

definition committedQueries :: "(nat \<times> InputEvent) list \<Rightarrow> string list" where
  "committedQueries raw = map (\<lambda>(t, e). targetValue e) (searchPipeline raw)"

section \<open>Invariant and bursts\<close>

text \<open>
  The refresh timers of a state: none is live, or exactly one, and it is the one that
  \<open>refreshSubscription\<close> holds.
\<close>

definition oneTimer :: "State \<Rightarrow> bool" where
  "oneTimer s =
     (case timers s of
        [] \<Rightarrow> True
      | t # ts \<Rightarrow> ts = [] \<and> refreshSubscription s = Some (tid t))"

text \<open>A burst: every input arrives less than \<open>d\<close> ms after the one before it.\<close>

fun closeTogether :: "nat \<Rightarrow> (nat \<times> 'a) list \<Rightarrow> bool" where
  "closeTogether d [] = True"
| "closeTogether d [(t, v)] = True"
| "closeTogether d ((t, v) # (t', v') # rest) = (t' < t + d \<and> closeTogether d ((t', v') # rest))"

section \<open>Concrete inputs and the states they lead to\<close>

definition paris :: Location where
  "paris = \<lparr>display_name = ''Paris, France'', lat = ''48.8566'', lon = ''2.3522''\<rparr>"

definition bistro :: Restaurant where
  "bistro = \<lparr>id_r = 1, lat_r = Num 10, lon_r = Num 20,
             tags = \<lparr>name = Some ''Bistro'', amenity = ''restaurant''\<rparr>\<rparr>"

definition cafe :: Restaurant where
  "cafe = \<lparr>id_r = 2, lat_r = Num 30, lon_r = Num 40,
           tags = \<lparr>name = None, amenity = ''restaurant''\<rparr>\<rparr>"

definition numbered :: "nat \<Rightarrow> Restaurant" where
  "numbered i = \<lparr>id_r = i, lat_r = Num (of_nat i), lon_r = Num 2,
                 tags = \<lparr>name = None, amenity = ''restaurant''\<rparr>\<rparr>"

definition twentyFive :: "Restaurant list" where
  "twentyFive = map numbered
     [0, 1, 2, 3, 4, 5, 6, 7, 8, 9, 10, 11, 12, 13, 14, 15, 16, 17, 18, 19, 20, 21, 22, 23, 24]"

text \<open>The first search has found Paris; its restaurant request (number 1) is in flight.\<close>

definition located :: State where
  "located = run (ngOnInit True) [GeocodeDone 0 (Ok [paris])]"

text \<open>Paris and one restaurant are on the map; the refresh timer 0 is live.\<close>

definition shown :: State where
  "shown = run (ngOnInit True) [GeocodeDone 0 (Ok [paris]), PoiDone 1 (Ok (Some [bistro]))]"

text \<open>
  A pan issued request 1, the search then issued request 2, and the response to
  request 2 has been applied; request 1 is still in flight.
\<close>

definition staleBefore :: State where
  "staleBefore = run (ngOnInit True)
     [MoveEnd (Num 10) (Num 20), GeocodeDone 0 (Ok [paris]), PoiDone 2 (Ok (Some [cafe]))]"

text \<open>Three requests in flight: the first search and two pans.\<close>

definition twoInFlight :: State where
  "twoInFlight = run (ngOnInit True) [MoveEnd (Num 10) (Num 20), MoveEnd (Num 30) (Num 40)]"

text \<open>From \<open>shown\<close>, the form is submitted again: geocode request 2 is in flight.\<close>

definition searching :: State where
  "searching = step shown Submit"

text \<open>From \<open>shown\<close>, the timer has ticked after 30 s: restaurant request 2 is in flight.\<close>

definition refreshing :: State where
  "refreshing = run shown [Advance 30000, Tick 0, Advance 5000]"

text \<open>From \<open>shown\<close>, a second search has found nothing: there is no location any more.\<close>

definition unlocated :: State where
  "unlocated = run shown [Submit, GeocodeDone 2 (Ok [])]"

definition unlocatedLater :: State where
  "unlocatedLater = run (ngOnInit True)
     [GeocodeDone 0 (Ok [paris]), PoiDone 1 (Ok (Some [bistro])), Submit, GeocodeDone 2 (Ok []),
      Advance 30000]"

text \<open>Without a location the map is panned; then the response to that pan is applied.\<close>

definition pannedPending :: State where
  "pannedPending = run unlocated [MoveEnd (Num 30) (Num 40)]"

definition pannedAfterLoss :: State where
  "pannedAfterLoss = run unlocated [MoveEnd (Num 30) (Num 40), PoiDone 3 (Ok (Some [cafe]))]"

text \<open>The same pan and response when the very first search found nothing.\<close>

definition pannedFromStart :: State where
  "pannedFromStart = run (ngOnInit True)
     [GeocodeDone 0 (Ok []), MoveEnd (Num 30) (Num 40), PoiDone 1 (Ok (Some [cafe]))]"

text \<open>From \<open>shown\<close>, connectivity is lost and 30 s pass: timer 0 is due.\<close>

definition wentOffline :: State where
  "wentOffline = run shown [Offline, Advance 30000]"

text \<open>From \<open>located\<close>, the restaurant request completes with 25 restaurants.\<close>

definition crowded :: State where
  "crowded = step located (PoiDone 1 (Ok (Some twentyFive)))"

text \<open>
  Raw input: \<open>Rome\<close> is typed at 1000 ms; at 5000 ms a character is deleted and at
  5100 ms typed again.
\<close>

definition retyped :: "(nat \<times> InputEvent) list" where
  "retyped =
     [(1000, \<lparr>ident = 0, targetValue = ''Rome''\<rparr>),
      (5000, \<lparr>ident = 1, targetValue = ''Rom''\<rparr>),
      (5100, \<lparr>ident = 2, targetValue = ''Rome''\<rparr>)]"

text \<open>
  From \<open>refreshing\<close>, the component is destroyed while restaurant request 2 is in
  flight; then its response arrives; then 30 s pass and timer 1 ticks.
\<close>

definition tornDown :: State where
  "tornDown = step refreshing Destroy"

definition tornDownLater :: State where
  "tornDownLater = run tornDown [PoiDone 2 (Ok (Some [cafe])), Advance 30000, Tick 1]"

section \<open>Lemmas about the methods\<close>

lemmas handler_defs =
  fetchRestaurantsForCoordinates_def searchLocation_def updateMapCenter_def
  setupClustering_def updateMapMarkers_def setupAutoRefresh_def refreshTick_def
  geocodeCatchError_def geocodeSubscriber_def geocodeCompleted_def
  poiCatchError_def poiSubscriber_def poiCompleted_def onSubmit_def onMoveEnd_def

lemma find_geocode_pending:
  "Geocode n q \<in> set ps \<Longrightarrow> \<exists>r. find (\<lambda>q. isGeocode q \<and> reqNo q = n) ps = Some r"
  by (induction ps) auto

lemma find_poi_pending:
  "POI n la lo \<in> set ps \<Longrightarrow> \<exists>r. find (\<lambda>q. \<not> isGeocode q \<and> reqNo q = n) ps = Some r"
  by (induction ps) auto

lemma poiCompleted_restaurants: "restaurants (poiCompleted (Ok d) s) = elementsOrEmpty d"
  by (simp add: handler_defs Let_def split: option.splits)

lemma poiCompleted_failed_restaurants: "restaurants (poiCompleted TransportError s) = []"
  by (simp add: handler_defs elementsOrEmpty_def Let_def split: option.splits)

lemma poiCompleted_timers:
  "timers (poiCompleted r s) =
     unsubscribe (refreshSubscription s) (timers s) @ [\<lparr>tid = nextTimer s, due = now s + 30000\<rparr>]"
  by (simp add: handler_defs Let_def split: option.splits response.splits)

lemma poiCompleted_refreshSubscription:
  "refreshSubscription (poiCompleted r s) = Some (nextTimer s)"
  by (simp add: handler_defs Let_def split: option.splits response.splits)

lemma poiCompleted_loading: "\<not> loading (poiCompleted r s)"
  by (simp add: handler_defs Let_def split: option.splits response.splits)

lemma poiCompleted_location: "location (poiCompleted r s) = location s"
  by (simp add: handler_defs Let_def split: option.splits response.splits)

lemma poiCompleted_issued: "issued (poiCompleted r s) = issued s \<and> pending (poiCompleted r s) = pending s"
  by (simp add: handler_defs Let_def split: option.splits response.splits)

lemma poiCompleted_markers:
  "markers (poiCompleted r s) =
     (case map_w s of
        None \<Rightarrow> markers s
      | Some m \<Rightarrow>
          (case location s of
             None \<Rightarrow> markers s
           | Some loc \<Rightarrow> centerMarker loc # map restaurantMarker (restaurants (poiCompleted r s))))"
  by (simp add: handler_defs Let_def elementsOrEmpty_def split: option.splits response.splits)

lemma geocodeCompleted_timers:
  "timers (geocodeCompleted r s) = timers s \<and> refreshSubscription (geocodeCompleted r s) = refreshSubscription s"
  by (simp add: handler_defs Let_def split: option.splits response.splits list.splits)

lemma geocodeCompleted_failed:
  "location (geocodeCompleted TransportError s) = None \<and>
   pending (geocodeCompleted TransportError s) = pending s \<and>
   issued (geocodeCompleted TransportError s) = issued s \<and>
   \<not> loading (geocodeCompleted TransportError s)"
  by (simp add: handler_defs Let_def)

lemma geocodeCompleted_offline:
  "isOffline s \<Longrightarrow> issued (geocodeCompleted r s) = issued s \<and> pending (geocodeCompleted r s) = pending s"
  by (simp add: handler_defs Let_def split: option.splits response.splits list.splits)

lemma oneTimer_cong:
  "timers s' = timers s \<Longrightarrow> refreshSubscription s' = refreshSubscription s \<Longrightarrow> oneTimer s' = oneTimer s"
  by (simp add: oneTimer_def split: list.splits)

lemma oneTimer_unsubscribe: "oneTimer s \<Longrightarrow> unsubscribe (refreshSubscription s) (timers s) = []"
  by (auto simp: oneTimer_def unsubscribe_def split: list.splits option.splits)

lemma oneTimer_length: "oneTimer s \<Longrightarrow> length (timers s) \<le> 1"
  by (auto simp: oneTimer_def split: list.splits)

lemma searchLocation_timers:
  "timers (searchLocation q s) = timers s \<and> refreshSubscription (searchLocation q s) = refreshSubscription s"
  by (simp add: searchLocation_def)

lemma fetch_timers:
  "timers (fetchRestaurantsForCoordinates la lo s) = timers s \<and>
   refreshSubscription (fetchRestaurantsForCoordinates la lo s) = refreshSubscription s"
  by (simp add: fetchRestaurantsForCoordinates_def)

lemma refreshTick_timers:
  "timers (refreshTick s) = timers s \<and> refreshSubscription (refreshTick s) = refreshSubscription s"
  by (simp add: refreshTick_def fetch_timers split: option.splits)

lemma onMoveEnd_timers:
  "timers (onMoveEnd s) = timers s \<and> refreshSubscription (onMoveEnd s) = refreshSubscription s"
  by (simp add: onMoveEnd_def fetch_timers split: option.splits)

lemma clusteringOnLoad_timers:
  "timers (clusteringOnLoad s) = timers s \<and> refreshSubscription (clusteringOnLoad s) = refreshSubscription s"
  by (simp add: clusteringOnLoad_def split: option.splits)

lemma clusteringOnLoad_pow_timers:
  "timers ((clusteringOnLoad ^^ k) s) = timers s \<and>
   refreshSubscription ((clusteringOnLoad ^^ k) s) = refreshSubscription s"
  by (induction k) (simp_all add: clusteringOnLoad_timers)

lemma oneTimer_poiCompleted: "oneTimer s \<Longrightarrow> oneTimer (poiCompleted r s)"
  by (simp add: oneTimer_def [of "poiCompleted r s"] poiCompleted_timers
      poiCompleted_refreshSubscription oneTimer_unsubscribe)

lemma oneTimer_tick:
  assumes "oneTimer s"
  shows "oneTimer (s\<lparr>timers := map (\<lambda>y. if tid y = t then y\<lparr>due := due y + 30000\<rparr> else y) (timers s)\<rparr>)"
  using assms by (auto simp: oneTimer_def split: list.splits)

lemma oneTimer_same:
  "oneTimer s \<Longrightarrow> timers s' = timers s \<Longrightarrow> refreshSubscription s' = refreshSubscription s \<Longrightarrow> oneTimer s'"
  by (simp add: oneTimer_def split: list.splits)

lemma oneTimer_ngOnDestroy: "oneTimer s \<Longrightarrow> oneTimer (ngOnDestroy s)"
  by (auto simp: oneTimer_def ngOnDestroy_def unsubscribe_def split: list.splits option.splits)

lemma step_GeocodeDone_timers:
  "timers (step s (GeocodeDone n r)) = timers s \<and>
   refreshSubscription (step s (GeocodeDone n r)) = refreshSubscription s"
  by (simp add: geocodeCompleted_timers split: option.splits)

lemma step_MoveEnd_timers:
  "timers (step s (MoveEnd la lo)) = timers s \<and>
   refreshSubscription (step s (MoveEnd la lo)) = refreshSubscription s"
  by (simp add: onMoveEnd_timers split: option.splits)

lemma step_MapLoad_timers:
  "timers (step s MapLoad) = timers s \<and> refreshSubscription (step s MapLoad) = refreshSubscription s"
  by (simp add: clusteringOnLoad_pow_timers split: option.splits)

lemma oneTimer_step: "oneTimer s \<Longrightarrow> oneTimer (step s e)"
proof (cases e)
  case Submit
  assume "oneTimer s"
  then show ?thesis
    unfolding Submit by (rule oneTimer_same) (simp_all add: onSubmit_def searchLocation_timers)
next
  case (SetQuery q)
  assume "oneTimer s"
  then show ?thesis unfolding SetQuery by (rule oneTimer_same) simp_all
next
  case DebouncedInput
  assume "oneTimer s"
  then show ?thesis
    unfolding DebouncedInput by (rule oneTimer_same) (simp_all add: searchLocation_timers)
next
  case (MoveEnd la lo)
  assume "oneTimer s"
  then show ?thesis
    unfolding MoveEnd by (rule oneTimer_same) (simp_all only: step_MoveEnd_timers)
next
  case Online
  assume "oneTimer s"
  then show ?thesis unfolding Online by (rule oneTimer_same) simp_all
next
  case Offline
  assume "oneTimer s"
  then show ?thesis unfolding Offline by (rule oneTimer_same) simp_all
next
  case (GeocodeDone n r)
  assume "oneTimer s"
  then show ?thesis
    unfolding GeocodeDone by (rule oneTimer_same) (simp_all only: step_GeocodeDone_timers)
next
  case (PoiDone n r)
  assume inv: "oneTimer s"
  show ?thesis
  proof (cases "find (\<lambda>q. \<not> isGeocode q \<and> reqNo q = n) (pending s)")
    case None
    then show ?thesis using PoiDone inv by simp
  next
    case (Some q)
    have "oneTimer (s\<lparr>pending := remove1 q (pending s)\<rparr>)"
      using inv by (rule oneTimer_same) simp_all
    then show ?thesis using PoiDone Some by (simp add: oneTimer_poiCompleted)
  qed
next
  case (Tick t)
  assume inv: "oneTimer s"
  show ?thesis
  proof (cases "find (\<lambda>x. tid x = t \<and> due x \<le> now s) (timers s)")
    case None
    then show ?thesis using Tick inv by simp
  next
    case (Some x)
    let ?s1 = "s\<lparr>timers := map (\<lambda>y. if tid y = t then y\<lparr>due := due y + 30000\<rparr> else y) (timers s)\<rparr>"
    have "oneTimer (refreshTick ?s1) = oneTimer ?s1"
      by (rule oneTimer_cong) (simp_all only: refreshTick_timers)
    then show ?thesis using Tick Some oneTimer_tick [OF inv, of t] by simp
  qed
next
  case MapLoad
  assume "oneTimer s"
  then show ?thesis
    unfolding MapLoad by (rule oneTimer_same) (simp_all only: step_MapLoad_timers)
next
  case Destroy
  assume "oneTimer s"
  then show ?thesis using Destroy by (simp add: oneTimer_ngOnDestroy)
next
  case (Advance d)
  assume "oneTimer s"
  then show ?thesis unfolding Advance by (rule oneTimer_same) simp_all
qed

lemma oneTimer_run: "oneTimer s \<Longrightarrow> oneTimer (run s es)"
  by (induction es arbitrary: s) (simp_all add: oneTimer_step)

lemma oneTimer_ngOnInit: "oneTimer (ngOnInit onLine)"
  by (simp add: oneTimer_def ngOnInit_def initMap_def fieldInitialisers_def Let_def searchLocation_timers)

lemma oneTimer_reachable: "oneTimer (run (ngOnInit onLine) es)"
  by (rule oneTimer_run [OF oneTimer_ngOnInit])

lemmas eval_defs = handler_defs ngOnInit_def initMap_def fieldInitialisers_def ngOnDestroy_def
  unsubscribe_def elementsOrEmpty_def clusteringOnLoad_def blank_def isWhiteSpace_def Let_def

lemmas example_defs = located_def shown_def staleBefore_def twoInFlight_def searching_def
  refreshing_def unlocated_def unlocatedLater_def pannedPending_def pannedAfterLoss_def
  pannedFromStart_def wentOffline_def crowded_def tornDown_def tornDownLater_def

lemma step_PoiDone_pending:
  assumes "POI n la lo \<in> set (pending s)"
  obtains q where "step s (PoiDone n r) = poiCompleted r (s\<lparr>pending := remove1 q (pending s)\<rparr>)"
  using find_poi_pending [OF assms] by auto

lemma step_GeocodeDone_pending:
  assumes "Geocode n qu \<in> set (pending s)"
  obtains q where "step s (GeocodeDone n r) = geocodeCompleted r (s\<lparr>pending := remove1 q (pending s)\<rparr>)"
  using find_geocode_pending [OF assms] by auto

lemma geocodeCompleted_found:
  "location (geocodeCompleted (Ok (g # gs)) s) = Some \<lparr>display_name = display_name g, lat = lat g, lon = lon g\<rparr>"
  by (simp add: handler_defs Let_def split: option.splits)

lemma geocodeCompleted_failed_view:
  "restaurants (geocodeCompleted TransportError s) = restaurants s \<and>
   markers (geocodeCompleted TransportError s) = markers s"
  by (simp add: handler_defs Let_def)

lemma clusteringOnLoad_requests:
  "issued (clusteringOnLoad s) = issued s \<and> pending (clusteringOnLoad s) = pending s"
  by (simp add: clusteringOnLoad_def split: option.splits)

lemma clusteringOnLoad_pow_requests:
  "issued ((clusteringOnLoad ^^ k) s) = issued s \<and> pending ((clusteringOnLoad ^^ k) s) = pending s"
  by (induction k) (simp_all add: clusteringOnLoad_requests)

lemma offline_handlers:
  assumes "isOffline s"
  shows "searchLocation q s = s" and "fetchRestaurantsForCoordinates la lo s = s"
    and "refreshTick s = s" and "onSubmit s = s"
  using assms
  by (simp_all add: searchLocation_def fetchRestaurantsForCoordinates_def refreshTick_def onSubmit_def
      split: option.splits)

lemma offline_step_requests:
  assumes "isOffline s"
  shows "issued (step s e) = issued s \<and> set (pending (step s e)) \<subseteq> set (pending s)"
proof (cases e)
  case Submit
  then show ?thesis using assms by (simp add: offline_handlers)
next
  case (SetQuery q)
  then show ?thesis by simp
next
  case DebouncedInput
  then show ?thesis using assms by (simp add: offline_handlers)
next
  case (MoveEnd la lo)
  then show ?thesis
    using assms by (simp add: onMoveEnd_def fetchRestaurantsForCoordinates_def split: option.splits)
next
  case Online
  then show ?thesis by simp
next
  case Offline
  then show ?thesis by simp
next
  case (GeocodeDone n r)
  show ?thesis
  proof (cases "find (\<lambda>q. isGeocode q \<and> reqNo q = n) (pending s)")
    case None
    then show ?thesis using GeocodeDone by simp
  next
    case (Some q)
    have "isOffline (s\<lparr>pending := remove1 q (pending s)\<rparr>)"
      using assms by simp
    from geocodeCompleted_offline [OF this, of r]
    show ?thesis using GeocodeDone Some set_remove1_subset [of q "pending s"] by auto
  qed
next
  case (PoiDone n r)
  show ?thesis
  proof (cases "find (\<lambda>q. \<not> isGeocode q \<and> reqNo q = n) (pending s)")
    case None
    then show ?thesis using PoiDone by simp
  next
    case (Some q)
    then show ?thesis
      using PoiDone set_remove1_subset [of q "pending s"] by (auto simp: poiCompleted_issued)
  qed
next
  case (Tick t)
  then show ?thesis
    using assms by (simp add: offline_handlers split: option.splits)
next
  case MapLoad
  then show ?thesis
    by (simp add: clusteringOnLoad_pow_requests split: option.splits)
next
  case Destroy
  then show ?thesis by (simp add: ngOnDestroy_def)
next
  case (Advance d)
  then show ?thesis by simp
qed

lemma poiCompleted_map_w:
  assumes "map_w s = Some m" and "location s = Some loc"
  shows "map_w (poiCompleted (Ok d) s) =
     Some (if 20 < length (elementsOrEmpty d) then m\<lparr>loadListeners := loadListeners m + 1\<rparr> else m)"
  using assms by (simp add: handler_defs Let_def)

lemma tick_keeps_tids:
  "map tid (map (\<lambda>y. if tid y = t then y\<lparr>due := due y + 30000\<rparr> else y) ts) = map tid ts"
  by (induction ts) simp_all

section \<open>C1: responses and the order of issue\<close>

text \<open>
  C1, as stated, fails. The component has no generation counter and no check of any kind
  on a completing request. In \<open>staleBefore\<close> three requests have been issued; the
  response to the search-triggered request 2 has been applied and the pan-triggered
  request 1 is still in flight. When the response to request 1 arrives it is applied: it
  replaces \<open>restaurants\<close> and the markers, although a request issued later has
  completed already.
\<close>

theorem stale_response_applied:
  "POI 1 (Num 10) (Num 20) \<in> set (pending staleBefore) \<and> issued staleBefore = 3 \<and>
   restaurants staleBefore = [cafe] \<and>
   restaurants (step staleBefore (PoiDone 1 (Ok (Some [bistro])))) = [bistro] \<and>
   restaurants (step staleBefore (PoiDone 1 (Ok (Some [bistro])))) \<noteq> restaurants staleBefore \<and>
   markers (step staleBefore (PoiDone 1 (Ok (Some [bistro])))) \<noteq> markers staleBefore"
  by (simp add: example_defs eval_defs centerMarker_def restaurantMarker_def bistro_def cafe_def nameOrUnnamed_def)

text \<open>
  C1, amended: every response to a request in flight is applied when it arrives, whatever
  the number of the request in the order of issue. A restaurant response replaces
  \<open>restaurants\<close> by its elements; a geocode response that is not empty replaces
  \<open>location\<close> by its first result. The view therefore shows the response that arrived
  last, not the response to the request issued last.
\<close>

theorem responses_applied_in_arrival_order:
  "(POI n la lo \<in> set (pending s) \<longrightarrow>
      restaurants (step s (PoiDone n (Ok d))) = elementsOrEmpty d) \<and>
   (Geocode m q \<in> set (pending s) \<longrightarrow>
      location (step s (GeocodeDone m (Ok (g # gs)))) =
        Some \<lparr>display_name = display_name g, lat = lat g, lon = lon g\<rparr>)"
proof (intro conjI impI)
  assume "POI n la lo \<in> set (pending s)"
  then obtain p where "step s (PoiDone n (Ok d)) = poiCompleted (Ok d) (s\<lparr>pending := remove1 p (pending s)\<rparr>)"
    by (rule step_PoiDone_pending)
  then show "restaurants (step s (PoiDone n (Ok d))) = elementsOrEmpty d"
    by (simp add: poiCompleted_restaurants)
next
  assume "Geocode m q \<in> set (pending s)"
  then obtain p where
    "step s (GeocodeDone m (Ok (g # gs))) = geocodeCompleted (Ok (g # gs)) (s\<lparr>pending := remove1 p (pending s)\<rparr>)"
    by (rule step_GeocodeDone_pending)
  then show "location (step s (GeocodeDone m (Ok (g # gs)))) =
        Some \<lparr>display_name = display_name g, lat = lat g, lon = lon g\<rparr>"
    by (simp only: geocodeCompleted_found)
qed

text \<open>
  Witness for C1, amended: with requests 0, 1 and 2 in flight, the responses to the first
  search (0) and to the first pan (1) are both applied.
\<close>

theorem responses_applied_in_arrival_order_witness:
  "POI 1 (Num 10) (Num 20) \<in> set (pending twoInFlight) \<and>
   Geocode 0 ''Paris'' \<in> set (pending twoInFlight) \<and>
   issued twoInFlight = 3 \<and>
   restaurants (step twoInFlight (PoiDone 1 (Ok (Some [bistro])))) = [bistro] \<and>
   location (step twoInFlight (GeocodeDone 0 (Ok [paris]))) = Some paris"
proof -
  have h1: "POI 1 (Num 10) (Num 20) \<in> set (pending twoInFlight)"
    by (simp add: twoInFlight_def eval_defs)
  have h2: "Geocode 0 ''Paris'' \<in> set (pending twoInFlight)"
    by (simp add: twoInFlight_def eval_defs)
  have h3: "issued twoInFlight = 3"
    by (simp add: twoInFlight_def eval_defs)
  show ?thesis
    using h1 h2 h3
      responses_applied_in_arrival_order [of 1 "Num 10" "Num 20" twoInFlight "Some [bistro]" 0 "''Paris''" paris "[]"]
    by (simp add: elementsOrEmpty_def paris_def)
qed

section \<open>C2: nothing is requested while offline\<close>

text \<open>
  C2: whenever \<open>isOffline\<close> is true, no geocode request and no restaurant request is
  issued, by any trigger. A submitted search and an emission of the debounced input leave
  the state as it is; a pan and a tick of the refresh timer leave the requests in flight
  and the number of requests issued as they are; and so does every other event \<open>e\<close>,
  a completion only taking its own request out of those in flight.
\<close>

theorem offline_issues_no_request:
  assumes "isOffline s"
  shows "onSubmit s = s \<and> step s DebouncedInput = s \<and>
         issued (step s (MoveEnd la lo)) = issued s \<and> pending (step s (MoveEnd la lo)) = pending s \<and>
         issued (step s (Tick t)) = issued s \<and> pending (step s (Tick t)) = pending s \<and>
         issued (step s e) = issued s \<and> set (pending (step s e)) \<subseteq> set (pending s)"
proof -
  have "pending (step s (MoveEnd la lo)) = pending s"
    using assms by (simp add: onMoveEnd_def fetchRestaurantsForCoordinates_def split: option.splits)
  moreover have "pending (step s (Tick t)) = pending s"
    using assms by (simp add: offline_handlers split: option.splits)
  moreover have "step s DebouncedInput = s"
    using assms by (simp add: offline_handlers)
  moreover have "onSubmit s = s"
    using assms by (simp add: offline_handlers)
  ultimately show ?thesis
    using offline_step_requests [OF assms, of "MoveEnd la lo"] offline_step_requests [OF assms, of "Tick t"]
      offline_step_requests [OF assms, of e]
    by (simp only: simp_thms)
qed

text \<open>
  Witness for C2: offline, with Paris located and the refresh timer due, a submit, a
  debounced input, a pan and the tick of the timer issue nothing.
\<close>

theorem offline_issues_no_request_witness:
  "isOffline wentOffline \<and> location wentOffline = Some paris \<and>
   timers wentOffline = [\<lparr>tid = 0, due = 30000\<rparr>] \<and> now wentOffline = 30000 \<and>
   onSubmit wentOffline = wentOffline \<and> step wentOffline DebouncedInput = wentOffline \<and>
   issued (step wentOffline (MoveEnd (Num 10) (Num 20))) = issued wentOffline \<and>
   pending (step wentOffline (MoveEnd (Num 10) (Num 20))) = pending wentOffline \<and>
   issued (step wentOffline (Tick 0)) = issued wentOffline \<and>
   pending (step wentOffline (Tick 0)) = pending wentOffline"
proof -
  have h: "isOffline wentOffline"
    by (simp add: example_defs eval_defs)
  have "location wentOffline = Some paris \<and> timers wentOffline = [\<lparr>tid = 0, due = 30000\<rparr>] \<and>
        now wentOffline = 30000"
    by (simp add: example_defs eval_defs paris_def)
  then show ?thesis
    using h offline_issues_no_request [OF h, of "Num 10" "Num 20" 0 Submit] by simp
qed

section \<open>C3: a geocode request that fails\<close>

text \<open>
  C3, as stated, fails. \<open>catchError\<close> sets the message of the failure and hands the
  empty array to the subscriber, which treats it as a search without results: it sets
  \<open>location\<close> to \<open>null\<close> and overwrites the message. In \<open>searching\<close> Paris is the
  location and geocode request 2 is in flight; after its transport error the location is
  gone and the message is the one for no results.
\<close>

theorem geocode_failure_clears_location:
  "Geocode 2 ''Paris'' \<in> set (pending searching) \<and> location searching = Some paris \<and>
   location (step searching (GeocodeDone 2 TransportError)) = None \<and>
   location (step searching (GeocodeDone 2 TransportError)) \<noteq> location searching \<and>
   error (step searching (GeocodeDone 2 TransportError)) = Some ''No results found for this location'' \<and>
   error (step searching (GeocodeDone 2 TransportError)) \<noteq> Some ''Failed to fetch location. Please try again.''"
  by (simp add: example_defs eval_defs paris_def)

text \<open>
  C3, amended: when a geocode request fails with a transport error, the failure is handled
  as an empty result and the cycle stops: no request is issued, \<open>loading\<close> is cleared,
  \<open>currentLocation\<close> becomes absent, and the restaurants and the markers stay as they
  are.
\<close>

theorem geocode_failure_handled_as_empty:
  assumes "Geocode n q \<in> set (pending s)"
  shows "location (step s (GeocodeDone n TransportError)) = None \<and>
         issued (step s (GeocodeDone n TransportError)) = issued s \<and>
         set (pending (step s (GeocodeDone n TransportError))) \<subseteq> set (pending s) \<and>
         \<not> loading (step s (GeocodeDone n TransportError)) \<and>
         restaurants (step s (GeocodeDone n TransportError)) = restaurants s \<and>
         markers (step s (GeocodeDone n TransportError)) = markers s"
proof -
  from assms obtain p where
    "step s (GeocodeDone n TransportError) = geocodeCompleted TransportError (s\<lparr>pending := remove1 p (pending s)\<rparr>)"
    by (rule step_GeocodeDone_pending)
  then show ?thesis
    using set_remove1_subset [of p "pending s"]
    by (simp only: geocodeCompleted_failed geocodeCompleted_failed_view) simp
qed

text \<open>Witness for C3, amended: the transport error of geocode request 2 in \<open>searching\<close>.\<close>

theorem geocode_failure_handled_as_empty_witness:
  "Geocode 2 ''Paris'' \<in> set (pending searching) \<and>
   location (step searching (GeocodeDone 2 TransportError)) = None \<and>
   issued (step searching (GeocodeDone 2 TransportError)) = 3 \<and>
   \<not> loading (step searching (GeocodeDone 2 TransportError)) \<and>
   restaurants (step searching (GeocodeDone 2 TransportError)) = [bistro]"
proof -
  have h: "Geocode 2 ''Paris'' \<in> set (pending searching)"
    by (simp add: example_defs eval_defs)
  have "issued searching = 3 \<and> restaurants searching = [bistro]"
    by (simp add: example_defs eval_defs)
  then show ?thesis
    using h geocode_failure_handled_as_empty [OF h] by simp
qed

section \<open>C4: a restaurant request that fails\<close>

text \<open>
  C4, as stated, fails. \<open>catchError\<close> turns the failure into a body without elements,
  and the subscriber stores it and renders it like any other. In \<open>refreshing\<close> one
  restaurant is stored and shown; after the transport error of request 2 no restaurant is
  stored and only the marker of the location is left.
\<close>

theorem poi_failure_clears_restaurants:
  "POI 2 (ParseFloat ''48.8566'') (ParseFloat ''2.3522'') \<in> set (pending refreshing) \<and>
   restaurants refreshing = [bistro] \<and>
   markers refreshing = [centerMarker paris, restaurantMarker bistro] \<and>
   restaurants (step refreshing (PoiDone 2 TransportError)) = [] \<and>
   markers (step refreshing (PoiDone 2 TransportError)) = [centerMarker paris] \<and>
   restaurants (step refreshing (PoiDone 2 TransportError)) \<noteq> restaurants refreshing \<and>
   markers (step refreshing (PoiDone 2 TransportError)) \<noteq> markers refreshing"
  by (simp add: example_defs eval_defs paris_def)

text \<open>
  C4, amended: when a restaurant request fails with a transport error, the state after
  the completion has the message of the restaurant failure as \<open>error\<close> and \<open>loading\<close>
  false, and the failure is handled as an empty result: \<open>restaurants\<close> becomes empty,
  and the markers become the marker of the location alone when a map and a location are
  present, and stay as they are otherwise.
\<close>

theorem poi_failure_handled_as_empty:
  assumes "POI n la lo \<in> set (pending s)"
  shows "error (step s (PoiDone n TransportError)) = Some ''Failed to fetch restaurants. Please try again.'' \<and>
         \<not> loading (step s (PoiDone n TransportError)) \<and>
         restaurants (step s (PoiDone n TransportError)) = [] \<and>
         markers (step s (PoiDone n TransportError)) =
           (case map_w s of
              None \<Rightarrow> markers s
            | Some m \<Rightarrow> (case location s of None \<Rightarrow> markers s | Some loc \<Rightarrow> [centerMarker loc]))"
proof -
  from assms obtain p where
    "step s (PoiDone n TransportError) = poiCompleted TransportError (s\<lparr>pending := remove1 p (pending s)\<rparr>)"
    by (rule step_PoiDone_pending)
  moreover have "error (poiCompleted TransportError s') = Some ''Failed to fetch restaurants. Please try again.''" for s'
    by (simp add: handler_defs Let_def split: option.splits)
  ultimately show ?thesis
    by (simp add: poiCompleted_loading poiCompleted_failed_restaurants poiCompleted_markers
        split: option.splits)
qed

text \<open>Witness for C4, amended: the transport error of restaurant request 2 in \<open>refreshing\<close>.\<close>

theorem poi_failure_handled_as_empty_witness:
  "POI 2 (ParseFloat ''48.8566'') (ParseFloat ''2.3522'') \<in> set (pending refreshing) \<and>
   error (step refreshing (PoiDone 2 TransportError)) = Some ''Failed to fetch restaurants. Please try again.'' \<and>
   \<not> loading (step refreshing (PoiDone 2 TransportError)) \<and>
   restaurants (step refreshing (PoiDone 2 TransportError)) = [] \<and>
   markers (step refreshing (PoiDone 2 TransportError)) = [centerMarker paris]"
proof -
  have h: "POI 2 (ParseFloat ''48.8566'') (ParseFloat ''2.3522'') \<in> set (pending refreshing)"
    by (simp add: example_defs eval_defs paris_def)
  have "map_w refreshing \<noteq> None \<and> location refreshing = Some paris"
    by (simp add: example_defs eval_defs paris_def)
  then show ?thesis
    using h poi_failure_handled_as_empty [OF h] by auto
qed

section \<open>C5: the debounced search input\<close>

text \<open>
  A burst on its own is committed once, with its last text: \<open>debounceTime\<close> lets
  only the last event of a burst through.
\<close>

lemma debounceTime_burst:
  "xs \<noteq> [] \<Longrightarrow> closeTogether d xs \<Longrightarrow> debounceTime d xs = [(fst (last xs) + d, snd (last xs))]"
  by (induction d xs rule: debounceTime.induct) simp_all

lemma burst_commits_last:
  assumes "xs \<noteq> []" and "closeTogether 300 xs"
  shows "committedQueries xs = [targetValue (snd (last xs))]"
  using debounceTime_burst [OF assms]
  by (simp add: committedQueries_def searchPipeline_def distinctUntilChanged_def)

text \<open>
  C5 at a concrete input. \<open>Rome\<close> is typed and committed; later a burst of two events
  within 300 ms ends with the same text \<open>Rome\<close>. The pipeline commits \<open>Rome\<close> a
  second time: \<open>distinctUntilChanged\<close> compares the event objects, which are never the
  same, not the texts. The component then has two geocode requests for \<open>Rome\<close> in
  flight.
\<close>

theorem duplicate_query_committed_again:
  "closeTogether 300 (tl retyped) \<and>
   committedQueries (take 1 retyped) = [''Rome''] \<and>
   committedQueries retyped = [''Rome'', ''Rome''] \<and>
   pending (run (ngOnInit True)
      [SetQuery ''Rome'', DebouncedInput, SetQuery ''Rom'', SetQuery ''Rome'', DebouncedInput]) =
     [Geocode 0 ''Paris'', Geocode 1 ''Rome'', Geocode 2 ''Rome'']"
  by (simp add: retyped_def committedQueries_def searchPipeline_def distinctUntilChanged_def
      eval_defs)

section \<open>C6: markers and clustering\<close>

text \<open>
  C6, as stated, fails. With 25 restaurants the renderer still creates one marker for
  each of them, besides the marker of the location: 26 markers.
\<close>

theorem crowded_markers_created:
  "POI 1 (ParseFloat ''48.8566'') (ParseFloat ''2.3522'') \<in> set (pending located) \<and>
   length (restaurants crowded) = 25 \<and>
   markers crowded = centerMarker paris # map restaurantMarker twentyFive \<and>
   length (markers crowded) = 26"
  by (simp add: example_defs eval_defs paris_def twentyFive_def)

text \<open>
  C6, amended: for every successful restaurant response applied while a map and a
  location are present, the renderer creates the highlighted marker of the location and
  one marker for each restaurant, whatever their number; above 20 restaurants it registers
  the clustering set-up on the map in addition (one more \<open>load\<close> listener), and up to
  20 it registers none.
\<close>

theorem markers_always_clustering_above_20:
  assumes "POI n la lo \<in> set (pending s)" and "map_w s = Some m" and "location s = Some loc"
  shows "markers (step s (PoiDone n (Ok d))) = centerMarker loc # map restaurantMarker (elementsOrEmpty d) \<and>
         map_w (step s (PoiDone n (Ok d))) =
           Some (if 20 < length (elementsOrEmpty d) then m\<lparr>loadListeners := loadListeners m + 1\<rparr> else m)"
proof -
  from assms(1) obtain p where
    eq: "step s (PoiDone n (Ok d)) = poiCompleted (Ok d) (s\<lparr>pending := remove1 p (pending s)\<rparr>)"
    by (rule step_PoiDone_pending)
  have "map_w (poiCompleted (Ok d) (s\<lparr>pending := remove1 p (pending s)\<rparr>)) =
     Some (if 20 < length (elementsOrEmpty d) then m\<lparr>loadListeners := loadListeners m + 1\<rparr> else m)"
    by (rule poiCompleted_map_w) (simp_all add: assms)
  then show ?thesis
    using assms(2,3) unfolding eq by (simp add: poiCompleted_markers poiCompleted_restaurants)
qed

text \<open>
  Witness for C6, amended: in \<open>located\<close>, a response with 2 restaurants gives 3 markers
  and no listener, a response with 25 gives 26 markers and one listener.
\<close>

theorem markers_always_clustering_above_20_witness:
  "POI 1 (ParseFloat ''48.8566'') (ParseFloat ''2.3522'') \<in> set (pending located) \<and>
   location located = Some paris \<and>
   markers (step located (PoiDone 1 (Ok (Some [bistro, cafe])))) =
     [centerMarker paris, restaurantMarker bistro, restaurantMarker cafe] \<and>
   map_option loadListeners (map_w (step located (PoiDone 1 (Ok (Some [bistro, cafe]))))) = Some 0 \<and>
   markers (step located (PoiDone 1 (Ok (Some twentyFive)))) =
     centerMarker paris # map restaurantMarker twentyFive \<and>
   map_option loadListeners (map_w (step located (PoiDone 1 (Ok (Some twentyFive))))) = Some 1"
proof -
  have h1: "POI 1 (ParseFloat ''48.8566'') (ParseFloat ''2.3522'') \<in> set (pending located)"
    by (simp add: example_defs eval_defs paris_def)
  have h2: "map_w located = Some \<lparr>center = (ParseFloat ''2.3522'', ParseFloat ''48.8566''), zoom = 13,
      loadListeners = 0, restaurantsSource = None, layers = [], removed = False\<rparr>"
    by (simp add: example_defs eval_defs paris_def)
  have h3: "location located = Some paris"
    by (simp add: example_defs eval_defs paris_def)
  have l: "length twentyFive = 25"
    by (simp add: twentyFive_def)
  show ?thesis
    using h1 h3 l markers_always_clustering_above_20 [OF h1 h2 h3, of "Some [bistro, cafe]"]
      markers_always_clustering_above_20 [OF h1 h2 h3, of "Some twentyFive"]
    by (simp add: elementsOrEmpty_def del: step.simps)
qed

section \<open>C7: one refresh timer\<close>

text \<open>
  C7: in every state that the component reaches from \<open>ngOnInit\<close>, at most one refresh
  timer is live; starting a new timer leaves the new one as the only live timer; and
  every completion of a restaurant request, of whatever outcome, leaves as the only live
  timer a new one whose first tick is 30000 ms after that completion.
\<close>

theorem at_most_one_refresh_timer:
  assumes "s = run (ngOnInit onLine) es"
  shows "length (timers s) \<le> 1 \<and>
         timers (setupAutoRefresh s) = [\<lparr>tid = nextTimer s, due = now s + 30000\<rparr>] \<and>
         (POI n la lo \<in> set (pending s) \<longrightarrow>
            timers (step s (PoiDone n r)) = [\<lparr>tid = nextTimer s, due = now s + 30000\<rparr>])"
proof -
  have inv: "oneTimer s"
    unfolding assms by (rule oneTimer_reachable)
  have one: "length (timers s) \<le> 1"
    using inv by (rule oneTimer_length)
  have fresh: "timers (setupAutoRefresh s) = [\<lparr>tid = nextTimer s, due = now s + 30000\<rparr>]"
    using oneTimer_unsubscribe [OF inv] by (simp add: setupAutoRefresh_def)
  have rearmed: "timers (step s (PoiDone n r)) = [\<lparr>tid = nextTimer s, due = now s + 30000\<rparr>]"
    if "POI n la lo \<in> set (pending s)"
  proof -
    from that obtain p where
      "step s (PoiDone n r) = poiCompleted r (s\<lparr>pending := remove1 p (pending s)\<rparr>)"
      by (rule step_PoiDone_pending)
    then show ?thesis
      using oneTimer_unsubscribe [OF inv] by (simp add: poiCompleted_timers)
  qed
  from one fresh rearmed show ?thesis by blast
qed

text \<open>
  Witness for C7: in \<open>refreshing\<close> timer 0 is due at 60000 ms; request 2 completes at
  35000 ms and the only timer then is timer 1, due at 65000 ms.
\<close>

theorem at_most_one_refresh_timer_witness:
  "refreshing = run (ngOnInit True)
     [GeocodeDone 0 (Ok [paris]), PoiDone 1 (Ok (Some [bistro])), Advance 30000, Tick 0, Advance 5000] \<and>
   timers refreshing = [\<lparr>tid = 0, due = 60000\<rparr>] \<and>
   POI 2 (ParseFloat ''48.8566'') (ParseFloat ''2.3522'') \<in> set (pending refreshing) \<and>
   timers (setupAutoRefresh refreshing) = [\<lparr>tid = 1, due = 65000\<rparr>] \<and>
   timers (step refreshing (PoiDone 2 (Ok (Some [cafe])))) = [\<lparr>tid = 1, due = 65000\<rparr>]"
proof -
  have h: "refreshing = run (ngOnInit True)
     [GeocodeDone 0 (Ok [paris]), PoiDone 1 (Ok (Some [bistro])), Advance 30000, Tick 0, Advance 5000]"
    by (simp add: refreshing_def shown_def)
  have e: "timers refreshing = [\<lparr>tid = 0, due = 60000\<rparr>] \<and> nextTimer refreshing = 1 \<and>
      now refreshing = 35000 \<and>
      POI 2 (ParseFloat ''48.8566'') (ParseFloat ''2.3522'') \<in> set (pending refreshing)"
    by (simp add: example_defs eval_defs paris_def)
  have "timers refreshing = [\<lparr>tid = 0, due = 60000\<rparr>] \<and>
   POI 2 (ParseFloat ''48.8566'') (ParseFloat ''2.3522'') \<in> set (pending refreshing) \<and>
   timers (setupAutoRefresh refreshing) = [\<lparr>tid = 1, due = 65000\<rparr>] \<and>
   timers (step refreshing (PoiDone 2 (Ok (Some [cafe])))) = [\<lparr>tid = 1, due = 65000\<rparr>]"
    using e at_most_one_refresh_timer [OF h, of 2 "ParseFloat ''48.8566''" "ParseFloat ''2.3522''" "Ok (Some [cafe])"]
    by (simp del: step.simps)
  with h show ?thesis by blast
qed

section \<open>C8: when the refresh stops\<close>

text \<open>
  The HTTP subscriptions are not piped through \<open>takeUntil(destroy$)\<close>. A restaurant
  response that arrives after \<open>ngOnDestroy\<close> therefore still runs the subscriber, which
  calls \<open>setupAutoRefresh\<close>; the timer it subscribes is piped through a \<open>destroy$\<close> that
  has completed already, and nothing stops it any more. Whatever the state, if a
  restaurant request is in flight at teardown, its completion leaves a timer live.
\<close>

lemma teardown_keeps_requests: "pending (step s Destroy) = pending s"
  by (simp add: ngOnDestroy_def)

lemma rearmed_after_teardown:
  assumes "POI n la lo \<in> set (pending s)"
  shows "destroyed (step (step s Destroy) (PoiDone n r)) \<and>
         timers (step (step s Destroy) (PoiDone n r)) \<noteq> []"
proof -
  have "POI n la lo \<in> set (pending (step s Destroy))"
    using assms by (simp only: teardown_keeps_requests)
  then obtain p where
    eq: "step (step s Destroy) (PoiDone n r) =
      poiCompleted r ((step s Destroy)\<lparr>pending := remove1 p (pending (step s Destroy))\<rparr>)"
    by (rule step_PoiDone_pending)
  have "destroyed (poiCompleted r s') = destroyed s'" for s'
    by (simp add: handler_defs Let_def split: option.splits response.splits)
  then show ?thesis
    unfolding eq by (simp add: poiCompleted_timers ngOnDestroy_def)
qed

text \<open>
  C8, as stated, fails, in both halves.
  When a search finds nothing, \<open>location\<close> becomes \<open>null\<close> and the timer is left
  alone: in \<open>unlocated\<close> there is no location and timer 0 is still live.
  Teardown does not stop the refresh entirely either: in \<open>refreshing\<close> restaurant
  request 2 is in flight; \<open>ngOnDestroy\<close> cancels timer 0, but when the response arrives
  afterwards timer 1 is armed, and 30 s later its tick issues restaurant request 3, in a
  component that has been destroyed.
\<close>

theorem refresh_not_stopped_entirely:
  "location shown = Some paris \<and> timers shown = [\<lparr>tid = 0, due = 30000\<rparr>] \<and>
   unlocated = run shown [Submit, GeocodeDone 2 (Ok [])] \<and>
   location unlocated = None \<and> timers unlocated = [\<lparr>tid = 0, due = 30000\<rparr>] \<and>
   timers unlocated \<noteq> [] \<and>
   tornDown = step refreshing Destroy \<and>
   destroyed tornDown \<and> timers tornDown = [] \<and>
   pending tornDown = [POI 2 (ParseFloat ''48.8566'') (ParseFloat ''2.3522'')] \<and>
   timers (step tornDown (PoiDone 2 (Ok (Some [cafe])))) = [\<lparr>tid = 1, due = 65000\<rparr>] \<and>
   timers (step tornDown (PoiDone 2 (Ok (Some [cafe])))) \<noteq> [] \<and>
   tornDownLater = run tornDown [PoiDone 2 (Ok (Some [cafe])), Advance 30000, Tick 1] \<and>
   destroyed tornDownLater \<and>
   pending tornDownLater = [POI 3 (ParseFloat ''48.8566'') (ParseFloat ''2.3522'')] \<and>
   timers tornDownLater = [\<lparr>tid = 1, due = 95000\<rparr>]"
proof -
  have "location shown = Some paris \<and> timers shown = [\<lparr>tid = 0, due = 30000\<rparr>] \<and>
   location unlocated = None \<and> timers unlocated = [\<lparr>tid = 0, due = 30000\<rparr>] \<and>
   timers unlocated \<noteq> []"
    by (simp add: example_defs eval_defs paris_def)
  moreover have "destroyed tornDown \<and> timers tornDown = [] \<and>
   pending tornDown = [POI 2 (ParseFloat ''48.8566'') (ParseFloat ''2.3522'')] \<and>
   timers (step tornDown (PoiDone 2 (Ok (Some [cafe])))) = [\<lparr>tid = 1, due = 65000\<rparr>] \<and>
   timers (step tornDown (PoiDone 2 (Ok (Some [cafe])))) \<noteq> []"
    by (simp add: example_defs eval_defs paris_def)
  moreover have "destroyed tornDownLater \<and>
   pending tornDownLater = [POI 3 (ParseFloat ''48.8566'') (ParseFloat ''2.3522'')] \<and>
   timers tornDownLater = [\<lparr>tid = 1, due = 95000\<rparr>]"
    by (simp add: example_defs eval_defs paris_def)
  ultimately show ?thesis
    using unlocated_def tornDown_def tornDownLater_def by blast
qed

text \<open>
  C8, amended: when teardown runs, \<open>ngOnDestroy\<close> cancels every refresh timer that is
  live at that moment. When \<open>currentLocation\<close> becomes absent the timer is not
  cancelled: the completion of a geocode request, which is what makes it absent, does not
  touch the timers, and while \<open>currentLocation\<close> is absent the same timers stay live and
  a tick issues no request.
\<close>

theorem refresh_cancelled_on_teardown_only:
  assumes "s = run (ngOnInit onLine) es"
  shows "timers (step s Destroy) = [] \<and>
         timers (step s (GeocodeDone n r)) = timers s \<and>
         (location s = None \<longrightarrow>
            map tid (timers (step s (Tick t))) = map tid (timers s) \<and>
            issued (step s (Tick t)) = issued s \<and> pending (step s (Tick t)) = pending s)"
proof -
  have inv: "oneTimer s"
    unfolding assms by (rule oneTimer_reachable)
  have "timers (step s Destroy) = []"
    using oneTimer_unsubscribe [OF inv] by (simp add: ngOnDestroy_def)
  moreover have "timers (step s (GeocodeDone n r)) = timers s"
    by (simp only: step_GeocodeDone_timers)
  moreover have "map tid (timers (step s (Tick t))) = map tid (timers s) \<and>
      issued (step s (Tick t)) = issued s \<and> pending (step s (Tick t)) = pending s"
    if "location s = None"
    using that by (simp add: refreshTick_def tick_keeps_tids split: option.splits)
  ultimately show ?thesis by blast
qed

text \<open>
  Witness for C8, amended: in \<open>unlocatedLater\<close> there is no location and timer 0 is due;
  its tick issues nothing and leaves it live, and teardown cancels it.
\<close>

theorem refresh_cancelled_on_teardown_only_witness:
  "location unlocatedLater = None \<and> timers unlocatedLater = [\<lparr>tid = 0, due = 30000\<rparr>] \<and>
   now unlocatedLater = 30000 \<and>
   timers (step unlocatedLater Destroy) = [] \<and>
   map tid (timers (step unlocatedLater (Tick 0))) = [0] \<and>
   issued (step unlocatedLater (Tick 0)) = issued unlocatedLater \<and>
   pending (step unlocatedLater (Tick 0)) = pending unlocatedLater"
proof -
  have e: "location unlocatedLater = None \<and> timers unlocatedLater = [\<lparr>tid = 0, due = 30000\<rparr>] \<and>
      now unlocatedLater = 30000"
    by (simp add: unlocatedLater_def eval_defs paris_def)
  show ?thesis
    using e refresh_cancelled_on_teardown_only [OF unlocatedLater_def, of 0 TransportError 0]
    by (simp del: step.simps)
qed

section \<open>C9: the markers as a function of location and restaurants\<close>

text \<open>
  C9, as stated, fails. \<open>updateMapMarkers\<close> returns at once when there is no location,
  so the markers of an earlier location stay. \<open>pannedAfterLoss\<close> and \<open>pannedFromStart\<close>
  are both reached by applying the same restaurant response and agree on the location
  (absent) and on the restaurants, but not on the markers.
\<close>

theorem markers_not_function_of_state:
  "location pannedAfterLoss = location pannedFromStart \<and>
   restaurants pannedAfterLoss = restaurants pannedFromStart \<and>
   markers pannedAfterLoss = [centerMarker paris, restaurantMarker bistro] \<and>
   markers pannedFromStart = [] \<and>
   markers pannedAfterLoss \<noteq> markers pannedFromStart"
  by (simp add: example_defs eval_defs paris_def)

text \<open>
  C9, amended: after each applied restaurant response, with a map present, the markers
  are a function of the location and the restaurants when a location is present (the
  marker of the location followed by one marker for each restaurant stored), and are the
  markers of before when \<open>currentLocation\<close> is absent. The response does not change the
  location.
\<close>

theorem markers_recomputed_when_location_present:
  assumes "POI n la lo \<in> set (pending s)" and "map_w s = Some m"
  shows "(location s = Some loc \<longrightarrow>
            location (step s (PoiDone n r)) = Some loc \<and>
            markers (step s (PoiDone n r)) =
              centerMarker loc # map restaurantMarker (restaurants (step s (PoiDone n r)))) \<and>
         (location s = None \<longrightarrow>
            location (step s (PoiDone n r)) = None \<and>
            markers (step s (PoiDone n r)) = markers s)"
proof -
  from assms(1) obtain p where
    eq: "step s (PoiDone n r) = poiCompleted r (s\<lparr>pending := remove1 p (pending s)\<rparr>)"
    by (rule step_PoiDone_pending)
  show ?thesis
    using assms(2) unfolding eq by (simp add: poiCompleted_markers poiCompleted_location)
qed

text \<open>
  Witness for C9, amended: a response applied in \<open>located\<close>, where Paris is the
  location, and the same response applied in \<open>pannedPending\<close>, where there is none.
\<close>

theorem markers_recomputed_when_location_present_witness:
  "POI 1 (ParseFloat ''48.8566'') (ParseFloat ''2.3522'') \<in> set (pending located) \<and>
   location located = Some paris \<and>
   markers (step located (PoiDone 1 (Ok (Some [cafe])))) = [centerMarker paris, restaurantMarker cafe] \<and>
   POI 3 (Num 30) (Num 40) \<in> set (pending pannedPending) \<and>
   location pannedPending = None \<and>
   markers pannedPending = [centerMarker paris, restaurantMarker bistro] \<and>
   restaurants (step pannedPending (PoiDone 3 (Ok (Some [cafe])))) = [cafe] \<and>
   markers (step pannedPending (PoiDone 3 (Ok (Some [cafe])))) = [centerMarker paris, restaurantMarker bistro]"
proof -
  have a1: "POI 1 (ParseFloat ''48.8566'') (ParseFloat ''2.3522'') \<in> set (pending located)"
    by (simp add: example_defs eval_defs paris_def)
  have a2: "map_w located = Some \<lparr>center = (ParseFloat ''2.3522'', ParseFloat ''48.8566''), zoom = 13,
      loadListeners = 0, restaurantsSource = None, layers = [], removed = False\<rparr>"
    by (simp add: example_defs eval_defs paris_def)
  have a3: "location located = Some paris"
    by (simp add: example_defs eval_defs paris_def)
  have b1: "POI 3 (Num 30) (Num 40) \<in> set (pending pannedPending)"
    by (simp add: example_defs eval_defs paris_def)
  have b2: "map_w pannedPending = Some \<lparr>center = (Num 40, Num 30), zoom = 13,
      loadListeners = 0, restaurantsSource = None, layers = [], removed = False\<rparr>"
    by (simp add: example_defs eval_defs paris_def)
  have b3: "location pannedPending = None \<and>
      markers pannedPending = [centerMarker paris, restaurantMarker bistro]"
    by (simp add: example_defs eval_defs paris_def)
  have r1: "restaurants (step located (PoiDone 1 (Ok (Some [cafe])))) = [cafe]"
    by (simp add: example_defs eval_defs paris_def)
  have r2: "restaurants (step pannedPending (PoiDone 3 (Ok (Some [cafe])))) = [cafe]"
    by (simp add: example_defs eval_defs paris_def)
  show ?thesis
    using a1 a3 b1 b3 r1 r2
      markers_recomputed_when_location_present [OF a1 a2, of paris "Ok (Some [cafe])"]
      markers_recomputed_when_location_present [OF b1 b2, of paris "Ok (Some [cafe])"]
    by (simp del: step.simps)
qed

section \<open>C10: every completion re-arms the timer\<close>



end
